theory Spec2Isabelle
  imports Complex_Main "HOL-Library.Multiset"
begin

section \<open>The intersection volume of class hulls: \<open>convex_hull_inter\<close>\<close>

text \<open>
  The repository is one Python function, \<^verbatim>\<open>convex_hull_inter(Q, y, factor_h, factor_k)\<close>
  (\<^verbatim>\<open>src/convex_hull_inter.py\<close>). It validates the shapes of two numpy arrays, splits the
  rows of \<open>Q\<close> by label, asks qhull for the hull of every class, stacks the hulls' facet
  inequalities, asks an LP solver for a strictly interior point, asks qhull for the vertices
  of the intersection and for the volume of their hull, and returns that volume times
  \<open>1 - factor_k\<close>. Every early exit returns \<open>0.0\<close>.

  Conventions of the embedding.
  \<^item> Python floats are real numbers: rounding, infinities and NaN are not modelled.
  \<^item> A numpy array is its shape and its elements in row-major order.
  \<^item> The three scipy entry points (\<^verbatim>\<open>ConvexHull\<close>, \<^verbatim>\<open>linprog\<close>, \<^verbatim>\<open>HalfspaceIntersection\<close>) are
    not code of the repository. They are parameters of the model, collected in a record
    \<open>library\<close>: each is an arbitrary function from the arguments it is called with to either a
    raised exception (\<open>Inl\<close>) or the fields of the returned object that the source reads
    (\<open>Inr\<close>). The fixed keyword arguments of the source (\<^verbatim>\<open>qhull_options="QJ"\<close>,
    \<^verbatim>\<open>bounds=(None, None)\<close>, \<^verbatim>\<open>method="highs-ipm"\<close>) are part of the parameter.
  \<^item> An exception that leaves the function is the value \<open>Inl e\<close>; a returned float is \<open>Inr r\<close>.
  \<^item> Every call of a library function is recorded, in order, in a list of events, so that
    ``no hull construction is attempted'' is a statement about that list.
  \<^item> \<^verbatim>\<open>factor_k\<close> is annotated \<^verbatim>\<open>int\<close> in the source and documented as a scaled factor; Python
    does not enforce the annotation, and the model takes a real number.
  \<^item> Where a claim is about what the libraries compute, and not only about what the function
    does with their answers, the theorem names what it asks of the library as a hypothesis:
    the contract of the call in exact arithmetic. The joggle that \<^verbatim>\<open>QJ\<close> asks of qhull moves
    the input by amounts of the order of the rounding error; like rounding, it is not modelled.
  \<^item> The arrays are values in the first part of the theory. Whether the caller's arrays are
    written to is a question about objects, so a second reading of the same source, over an
    explicit heap of array objects, follows the pure one and is proved to compute the same
    calls and the same result.
\<close>

subsection \<open>Arrays\<close>

record 'a ndarray =
  shape :: "nat list"
  data :: "'a list"

definition ndim :: "'a ndarray \<Rightarrow> nat" where
  "ndim a = length (shape a)"


text \<open>Row \<open>i\<close> of a two-dimensional array, and all its rows in order.\<close>

definition row :: "'a ndarray \<Rightarrow> nat \<Rightarrow> 'a list" where
  "row Q i = take (shape Q ! 1) (drop (i * (shape Q ! 1)) (data Q))"

definition rows :: "'a ndarray \<Rightarrow> 'a list list" where
  "rows Q = map (row Q) [0..<shape Q ! 0]"

text \<open>
  \<^verbatim>\<open>Q[y == label]\<close>: the comparison gives one boolean per entry of \<open>y\<close>, and indexing by that
  mask copies the rows of \<open>Q\<close> whose boolean is true, in their order. The source evaluates it
  only after it has checked that \<open>Q\<close> has as many rows as \<open>y\<close> has entries.
\<close>

definition mask_select :: "real ndarray \<Rightarrow> int ndarray \<Rightarrow> int \<Rightarrow> real list list" where
  "mask_select Q y label = map fst (filter (\<lambda>rl. snd rl = label) (zip (rows Q) (data y)))"

text \<open>\<^verbatim>\<open>np.unique(y)\<close>: the distinct values of \<open>y\<close>, ascending.\<close>

definition np_unique :: "int ndarray \<Rightarrow> int list" where
  "np_unique y = sort (remdups (data y))"

subsection \<open>The library boundary\<close>

text \<open>
  The exceptions a library call may raise: Python's \<^verbatim>\<open>Exception\<close> and its subclasses, all of
  which the handlers of the source (\<^verbatim>\<open>except Exception\<close>) catch without telling them apart.
\<close>

datatype py_exception = QhullError | ValueError | OtherException

text \<open>
  A facet inequality \<open>a \<cdot> x + b \<le> 0\<close> is a row \<open>[a\<^sub>1, \<dots>, a\<^sub>N, b]\<close> of \<^verbatim>\<open>hull.equations\<close>; the
  model keeps the normal \<open>a\<close> and the offset \<open>b\<close> as a pair, so that the slices
  \<^verbatim>\<open>[:, :-1]\<close> and \<^verbatim>\<open>[:, -1]\<close> are the two projections.
\<close>

type_synonym halfspace = "real list \<times> real"

record hull_obj =
  equations :: "halfspace list"
  volume :: real

record lp_result =
  success :: bool
  lp_fun :: real
  lp_x :: "real list"

record library =
  ConvexHull :: "real list list \<Rightarrow> py_exception + hull_obj"
  linprog :: "real list \<Rightarrow> real list list \<Rightarrow> real list \<Rightarrow> py_exception + lp_result"
  HalfspaceIntersection :: "halfspace list \<Rightarrow> real list \<Rightarrow> py_exception + real list list"

datatype event =
  ConvexHull_call "real list list"
  | linprog_call "real list" "real list list" "real list"
  | HalfspaceIntersection_call "halfspace list" "real list"

text \<open>\<^verbatim>\<open>np.vstack\<close> of a list of blocks; numpy raises \<^verbatim>\<open>ValueError\<close> on the empty list.\<close>

definition np_vstack :: "halfspace list list \<Rightarrow> py_exception + halfspace list" where
  "np_vstack blocks = (if blocks = [] then Inl ValueError else Inr (concat blocks))"

subsection \<open>Section 2 of the source: one hull per class\<close>

text \<open>
  The \<^verbatim>\<open>for label in unique_labels\<close> loop. It either leaves the function with a value
  (\<open>Return\<close>) or falls through with the blocks collected in \<^verbatim>\<open>all_halfspaces\<close> (\<open>Next\<close>).
\<close>

datatype 'a flow = Return real | Next 'a

fun hull_loop ::
  "library \<Rightarrow> real ndarray \<Rightarrow> int ndarray \<Rightarrow> nat \<Rightarrow> int list \<Rightarrow> halfspace list list
    \<Rightarrow> event list \<times> halfspace list list flow" where
  "hull_loop lib Q y num_dimensions [] all_halfspaces = ([], Next all_halfspaces)"
| "hull_loop lib Q y num_dimensions (label # labels) all_halfspaces =
    (let points = mask_select Q y label in
     if length points < num_dimensions + 1 then ([], Return 0)
     else
       (case ConvexHull lib points of
          Inl e \<Rightarrow> ([ConvexHull_call points], Return 0)
        | Inr h \<Rightarrow>
            (case hull_loop lib Q y num_dimensions labels (all_halfspaces @ [equations h]) of
               (evs, r) \<Rightarrow> (ConvexHull_call points # evs, r))))"

subsection \<open>Sections 3 to 5 of the source\<close>

text \<open>The linear program of section 3: minimise \<open>-t\<close> subject to \<open>a \<cdot> x + t \<le> -b\<close> for every row.\<close>

definition c_lp :: "nat \<Rightarrow> real list" where
  "c_lp num_dimensions = (replicate (num_dimensions + 1) 0)[num_dimensions := - 1]"

definition A_ub :: "halfspace list \<Rightarrow> real list list" where
  "A_ub halfspaces = map (\<lambda>a. a @ [1]) (map fst halfspaces)"

definition b_ub :: "halfspace list \<Rightarrow> real list" where
  "b_ub halfspaces = map (\<lambda>h. - snd h) halfspaces"

text \<open>Section 5: the vertex count gate, the final hull and the scaling.\<close>

definition volume_stage ::
  "library \<Rightarrow> nat \<Rightarrow> real \<Rightarrow> real list list \<Rightarrow> event list \<times> (py_exception + real)" where
  "volume_stage lib num_dimensions factor_k intersection_vertices =
    (if length intersection_vertices < num_dimensions + 1 then ([], Inr 0)
     else
       (case ConvexHull lib intersection_vertices of
          Inl e \<Rightarrow> ([ConvexHull_call intersection_vertices], Inr 0)
        | Inr final_hull \<Rightarrow>
            ([ConvexHull_call intersection_vertices], Inr (volume final_hull * (1 - factor_k)))))"

text \<open>Section 4: the vertices of the intersection, then section 5.\<close>

definition vertex_stage ::
  "library \<Rightarrow> nat \<Rightarrow> real \<Rightarrow> halfspace list \<Rightarrow> real list \<Rightarrow> event list \<times> (py_exception + real)" where
  "vertex_stage lib num_dimensions factor_k halfspaces feasible_point =
    (case HalfspaceIntersection lib halfspaces feasible_point of
       Inl e \<Rightarrow> ([HalfspaceIntersection_call halfspaces feasible_point], Inr 0)
     | Inr intersection_vertices \<Rightarrow>
         (case volume_stage lib num_dimensions factor_k intersection_vertices of
            (evs, r) \<Rightarrow> (HalfspaceIntersection_call halfspaces feasible_point # evs, r)))"

text \<open>
  Section 3: the call of \<^verbatim>\<open>linprog\<close> stands outside every \<^verbatim>\<open>try\<close>, so what it raises leaves
  the function. \<^verbatim>\<open>res.fun\<close> is read only when \<^verbatim>\<open>res.success\<close> holds (\<^verbatim>\<open>or\<close> is lazy).
\<close>

definition feasibility_stage ::
  "library \<Rightarrow> nat \<Rightarrow> real \<Rightarrow> halfspace list \<Rightarrow> event list \<times> (py_exception + real)" where
  "feasibility_stage lib num_dimensions factor_k halfspaces =
    (let call = linprog_call (c_lp num_dimensions) (A_ub halfspaces) (b_ub halfspaces) in
     case linprog lib (c_lp num_dimensions) (A_ub halfspaces) (b_ub halfspaces) of
       Inl e \<Rightarrow> ([call], Inl e)
     | Inr res \<Rightarrow>
         if \<not> success res \<or> lp_fun res > - (1 / 10 ^ 9) then ([call], Inr 0)
         else
           (case vertex_stage lib num_dimensions factor_k halfspaces (butlast (lp_x res)) of
              (evs, r) \<Rightarrow> (call # evs, r)))"

subsection \<open>The function\<close>

text \<open>
  \<open>convex_hull_inter_run\<close> gives the library calls made and the outcome;
  \<open>convex_hull_inter\<close> is the outcome alone, what the caller sees.
\<close>

definition convex_hull_inter_run ::
  "library \<Rightarrow> real ndarray \<Rightarrow> int ndarray \<Rightarrow> real \<Rightarrow> real \<Rightarrow> event list \<times> (py_exception + real)" where
  "convex_hull_inter_run lib Q y factor_h factor_k =
    (if ndim Q \<noteq> 2 \<or> ndim y \<noteq> 1 \<or> shape Q ! 0 \<noteq> shape y ! 0 \<or> shape Q ! 0 = 0
     then ([], Inr 0)
     else
       (let num_dimensions = shape Q ! 1; unique_labels = np_unique y in
        if length unique_labels < 2 then ([], Inr 0)
        else
          (case hull_loop lib Q y num_dimensions unique_labels [] of
             (evs, Return r) \<Rightarrow> (evs, Inr r)
           | (evs, Next all_halfspaces) \<Rightarrow>
               (case np_vstack all_halfspaces of
                  Inl e \<Rightarrow> (evs, Inl e)
                | Inr halfspaces \<Rightarrow>
                    (case feasibility_stage lib num_dimensions factor_k halfspaces of
                       (evs', r) \<Rightarrow> (evs @ evs', r))))))"

definition convex_hull_inter ::
  "library \<Rightarrow> real ndarray \<Rightarrow> int ndarray \<Rightarrow> real \<Rightarrow> real \<Rightarrow> py_exception + real" where
  "convex_hull_inter lib Q y factor_h factor_k = snd (convex_hull_inter_run lib Q y factor_h factor_k)"

subsection \<open>The first two gates\<close>

text \<open>
  The shapes are valid, there are at least two labels, and the loop over the classes fell
  through: it made the calls \<open>evs\<close> and collected one block of facets per class.
\<close>

definition hulls_built ::
  "library \<Rightarrow> real ndarray \<Rightarrow> int ndarray \<Rightarrow> event list \<Rightarrow> halfspace list list \<Rightarrow> bool" where
  "hulls_built lib Q y evs all_halfspaces =
    (ndim Q = 2 \<and> ndim y = 1 \<and> shape Q ! 0 = shape y ! 0 \<and> shape Q ! 0 \<noteq> 0
     \<and> 2 \<le> length (np_unique y)
     \<and> hull_loop lib Q y (shape Q ! 1) (np_unique y) [] = (evs, Next all_halfspaces))"

subsection \<open>Reordering the samples\<close>


text \<open>
  A point lies strictly inside every half-space of a list: it has the dimension of the
  normals, and \<open>a \<cdot> x + b < 0\<close> for every row \<open>(a, b)\<close>.
\<close>

definition strictly_inside :: "halfspace list \<Rightarrow> real list \<Rightarrow> bool" where
  "strictly_inside halfspaces x =
    list_all (\<lambda>h. length (fst h) = length x \<and> sum_list (map2 (*) (fst h) x) + snd h < 0)
      halfspaces"






subsection \<open>The same function over a heap of array objects\<close>

text \<open>
  A numpy array is an object: the caller and the function hold references to the same
  buffer, and code that receives a reference can write through it. The heap is the list of
  the array objects that exist, an address is a position in it, and a new object is appended.
  \<open>Q\<close> and \<open>y\<close> are the objects at the addresses \<open>qa\<close> and \<open>ya\<close>; the function reads them
  from the heap every time the source reads them.

  What the source does to the heap:
  \<^item> \<^verbatim>\<open>.ndim\<close>, \<^verbatim>\<open>.shape\<close>, \<^verbatim>\<open>np.unique(y)\<close> and \<^verbatim>\<open>y == label\<close> read their operands;
  \<^item> \<^verbatim>\<open>Q[y == label]\<close> indexes by a boolean mask, which makes a new array (a copy, never a view);
  \<^item> every array handed to a library call is one the function made itself
    (\<^verbatim>\<open>points\<close>, \<^verbatim>\<open>c_lp\<close>, \<^verbatim>\<open>A_ub\<close>, \<^verbatim>\<open>b_ub\<close>, \<^verbatim>\<open>halfspaces\<close>) or one the library returned
    (\<^verbatim>\<open>res.x[:-1]\<close>, \<^verbatim>\<open>h_intersection.intersections\<close>);
  \<^item> the only assignment into an array, \<^verbatim>\<open>c_lp[-1] = -1\<close>, writes into the fresh \<^verbatim>\<open>np.zeros\<close>.
  The library is not trusted to leave its arguments alone: a call may overwrite every buffer
  it was handed. \<open>w ev k b\<close> is what the call \<open>ev\<close> leaves in its \<open>k\<close>-th array argument,
  which held \<open>b\<close>; it is a parameter, like the library itself.
\<close>

datatype buffer = Floats "real ndarray" | Ints "int ndarray"

type_synonym heap = "buffer list"

text \<open>
  Reading an address as an array of floats or of labels. The other case of each projection
  is never met when \<open>qa\<close> holds an array of floats and \<open>ya\<close> an array of labels.
\<close>

definition floats_at :: "heap \<Rightarrow> nat \<Rightarrow> real ndarray" where
  "floats_at h a = (case h ! a of Floats A \<Rightarrow> A | Ints A \<Rightarrow> \<lparr>shape = [], data = []\<rparr>)"

definition ints_at :: "heap \<Rightarrow> nat \<Rightarrow> int ndarray" where
  "ints_at h a = (case h ! a of Ints A \<Rightarrow> A | Floats A \<Rightarrow> \<lparr>shape = [], data = []\<rparr>)"

definition array_1d :: "real list \<Rightarrow> buffer" where
  "array_1d xs = Floats \<lparr>shape = [length xs], data = xs\<rparr>"

definition array_2d :: "nat \<Rightarrow> real list list \<Rightarrow> buffer" where
  "array_2d n rs = Floats \<lparr>shape = [length rs, n], data = concat rs\<rparr>"

text \<open>
  The array arguments of a library call, as the buffers they occupy. A row of
  \<^verbatim>\<open>halfspaces\<close> is the normal followed by the offset.
\<close>

fun arg_buffers :: "nat \<Rightarrow> event \<Rightarrow> buffer list" where
  "arg_buffers n (ConvexHull_call points) = [array_2d n points]"
| "arg_buffers n (linprog_call c A b) = [array_1d c, array_2d (n + 1) A, array_1d b]"
| "arg_buffers n (HalfspaceIntersection_call halfspaces x) =
     [array_2d (n + 1) (map (\<lambda>h. fst h @ [snd h]) halfspaces), array_1d x]"

type_synonym scribble = "event \<Rightarrow> nat \<Rightarrow> buffer \<Rightarrow> buffer"

text \<open>
  A library call of sections 3 to 5: its array arguments are objects the caller of
  \<^verbatim>\<open>convex_hull_inter\<close> never saw, appended to the heap, holding after the call whatever the
  library left in them.
\<close>

definition library_call :: "scribble \<Rightarrow> nat \<Rightarrow> heap \<Rightarrow> event \<Rightarrow> heap" where
  "library_call w n h ev = h @ map (\<lambda>kb. w ev (fst kb) (snd kb)) (enumerate 0 (arg_buffers n ev))"

text \<open>
  The loop of section 2, reading \<open>Q\<close> and \<open>y\<close> from the heap in every iteration: the copy
  \<^verbatim>\<open>points\<close> is a new object at address \<open>pa\<close>, and \<^verbatim>\<open>ConvexHull\<close> may overwrite it.
\<close>

fun hull_loop_heap ::
  "library \<Rightarrow> scribble \<Rightarrow> nat \<Rightarrow> nat \<Rightarrow> nat \<Rightarrow> int list \<Rightarrow> halfspace list list \<Rightarrow> heap
    \<Rightarrow> heap \<times> event list \<times> halfspace list list flow" where
  "hull_loop_heap lib w qa ya num_dimensions [] all_halfspaces h = (h, [], Next all_halfspaces)"
| "hull_loop_heap lib w qa ya num_dimensions (label # labels) all_halfspaces h =
    (let points = mask_select (floats_at h qa) (ints_at h ya) label;
         pa = length h;
         h1 = h @ [array_2d num_dimensions points]
     in if length points < num_dimensions + 1 then (h1, [], Return 0)
        else
          (let h2 = h1[pa := w (ConvexHull_call points) 0 (h1 ! pa)] in
           case ConvexHull lib points of
             Inl e \<Rightarrow> (h2, [ConvexHull_call points], Return 0)
           | Inr hl \<Rightarrow>
               (case hull_loop_heap lib w qa ya num_dimensions labels
                       (all_halfspaces @ [equations hl]) h2 of
                  (h3, evs, r) \<Rightarrow> (h3, ConvexHull_call points # evs, r))))"

definition convex_hull_inter_heap ::
  "library \<Rightarrow> scribble \<Rightarrow> nat \<Rightarrow> nat \<Rightarrow> real \<Rightarrow> real \<Rightarrow> heap
    \<Rightarrow> heap \<times> event list \<times> (py_exception + real)" where
  "convex_hull_inter_heap lib w qa ya factor_h factor_k h =
    (let Q = floats_at h qa; y = ints_at h ya in
     if ndim Q \<noteq> 2 \<or> ndim y \<noteq> 1 \<or> shape Q ! 0 \<noteq> shape y ! 0 \<or> shape Q ! 0 = 0
     then (h, [], Inr 0)
     else
       (let num_dimensions = shape Q ! 1; unique_labels = np_unique y in
        if length unique_labels < 2 then (h, [], Inr 0)
        else
          (case hull_loop_heap lib w qa ya num_dimensions unique_labels [] h of
             (h1, evs, Return r) \<Rightarrow> (h1, evs, Inr r)
           | (h1, evs, Next all_halfspaces) \<Rightarrow>
               (case np_vstack all_halfspaces of
                  Inl e \<Rightarrow> (h1, evs, Inl e)
                | Inr halfspaces \<Rightarrow>
                    (case feasibility_stage lib num_dimensions factor_k halfspaces of
                       (evs', r) \<Rightarrow>
                         (foldl (library_call w num_dimensions) h1 evs', evs @ evs', r))))))"

subsection \<open>Concrete inputs\<close>

text \<open>
  Two classes of four points each in the plane, rows interleaved: label 0 on the corners of
  the square \<open>[0,2] \<times> [0,2]\<close>, label 1 on the corners of \<open>[1,3] \<times> [1,3]\<close>. The hulls meet
  in the unit square \<open>[1,2] \<times> [1,2]\<close>.
\<close>

definition Q_sq :: "real ndarray" where
  "Q_sq = \<lparr>shape = [8, 2], data = [0, 0, 1, 1, 2, 0, 3, 1, 2, 2, 3, 3, 0, 2, 1, 3]\<rparr>"

definition y_sq :: "int ndarray" where
  "y_sq = \<lparr>shape = [8], data = [0, 1, 0, 1, 0, 1, 0, 1]\<rparr>"

text \<open>The same eight rows with every label equal.\<close>

definition y_one :: "int ndarray" where
  "y_one = \<lparr>shape = [8], data = [7, 7, 7, 7, 7, 7, 7, 7]\<rparr>"

definition sq0 :: "real list list" where
  "sq0 = [[0, 0], [2, 0], [2, 2], [0, 2]]"

definition sq1 :: "real list list" where
  "sq1 = [[1, 1], [3, 1], [3, 3], [1, 3]]"

definition sq_inter :: "real list list" where
  "sq_inter = [[1, 1], [2, 1], [2, 2], [1, 2]]"

text \<open>The facets of the three squares, as rows \<open>(a, b)\<close> of \<open>a \<cdot> x + b \<le> 0\<close>.\<close>

definition hs0 :: "halfspace list" where
  "hs0 = [([- 1, 0], 0), ([1, 0], - 2), ([0, - 1], 0), ([0, 1], - 2)]"

definition hs1 :: "halfspace list" where
  "hs1 = [([- 1, 0], 1), ([1, 0], - 3), ([0, - 1], 1), ([0, 1], - 3)]"

definition hs_inter :: "halfspace list" where
  "hs_inter = [([- 1, 0], 1), ([1, 0], - 2), ([0, - 1], 1), ([0, 1], - 2)]"

text \<open>Two lists hold the same elements, whatever their order and repetitions.\<close>

definition same_elements :: "'a list \<Rightarrow> 'a list \<Rightarrow> bool" where
  "same_elements xs ys = (list_all (\<lambda>x. x \<in> set ys) xs \<and> list_all (\<lambda>v. v \<in> set xs) ys)"

text \<open>
  A library that answers as exact arithmetic does on the two squares and on their
  intersection, and reports failure everywhere else: the hull of a square is its four
  facets and its area; the LP over the eight stacked facets has its optimum \<open>t = 1/2\<close> at the
  centre \<open>(3/2, 3/2)\<close>; the vertices of the intersection are the corners of the unit square.
\<close>

definition lib_squares :: library where
  "lib_squares = \<lparr>
     ConvexHull = (\<lambda>points.
       if same_elements points sq0 then Inr \<lparr>equations = hs0, volume = 4\<rparr>
       else if same_elements points sq1 then Inr \<lparr>equations = hs1, volume = 4\<rparr>
       else if same_elements points sq_inter then Inr \<lparr>equations = hs_inter, volume = 1\<rparr>
       else Inl QhullError),
     linprog = (\<lambda>c A b.
       if c = [0, 0, - 1] \<and> same_elements (zip A b) (zip (A_ub (hs0 @ hs1)) (b_ub (hs0 @ hs1)))
       then Inr \<lparr>success = True, lp_fun = - (1 / 2), lp_x = [3 / 2, 3 / 2, 1 / 2]\<rparr>
       else Inr \<lparr>success = False, lp_fun = 0, lp_x = []\<rparr>),
     HalfspaceIntersection = (\<lambda>halfspaces interior_point.
       if same_elements halfspaces (hs0 @ hs1) \<and> interior_point = [3 / 2, 3 / 2]
       then Inr sq_inter
       else Inl QhullError)\<rparr>"

text \<open>
  Labels that leave class 0 with two points, exactly \<open>N\<close> in the plane.
\<close>

definition y_few :: "int ndarray" where
  "y_few = \<lparr>shape = [8], data = [0, 1, 0, 1, 1, 1, 1, 1]\<rparr>"


text \<open>
  Seven labels for the eight rows, and an input with no rows at all.
\<close>

definition y_short :: "int ndarray" where
  "y_short = \<lparr>shape = [7], data = [0, 1, 0, 1, 0, 1, 0]\<rparr>"

definition Q_empty :: "real ndarray" where
  "Q_empty = \<lparr>shape = [0, 2], data = []\<rparr>"

definition y_empty :: "int ndarray" where
  "y_empty = \<lparr>shape = [0], data = []\<rparr>"

text \<open>
  The square library with an LP solver that reports failure.
\<close>

definition lib_lp_fails :: library where
  "lib_lp_fails = lib_squares\<lparr>linprog := (\<lambda>c A b. Inr \<lparr>success = False, lp_fun = 0, lp_x = []\<rparr>)\<rparr>"







text \<open>
  A thin overlap: class 0 on the square \<open>[0,2] \<times> [0,2]\<close>, class 1 on the rectangle
  \<open>[2 - 2\<cdot>10\<^sup>-\<^sup>9, 4] \<times> [0,2]\<close>. The hulls meet in a strip of width \<open>2\<cdot>10\<^sup>-\<^sup>9\<close>, so the largest
  uniform slack is \<open>t = 10\<^sup>-\<^sup>9\<close>, at \<open>x\<^sub>1 = 2 - 10\<^sup>-\<^sup>9\<close>. The library answers as exact arithmetic
  does on this input.
\<close>

definition Q_sliver :: "real ndarray" where
  "Q_sliver = \<lparr>shape = [8, 2],
     data = [0, 0, 2 - 2 / 10 ^ 9, 0, 2, 0, 4, 0, 2, 2, 4, 2, 0, 2, 2 - 2 / 10 ^ 9, 2]\<rparr>"

definition rect1 :: "real list list" where
  "rect1 = [[2 - 2 / 10 ^ 9, 0], [4, 0], [4, 2], [2 - 2 / 10 ^ 9, 2]]"

definition sliver :: "real list list" where
  "sliver = [[2 - 2 / 10 ^ 9, 0], [2, 0], [2, 2], [2 - 2 / 10 ^ 9, 2]]"

definition hs_rect1 :: "halfspace list" where
  "hs_rect1 = [([- 1, 0], 2 - 2 / 10 ^ 9), ([1, 0], - 4), ([0, - 1], 0), ([0, 1], - 2)]"

definition hs_sliver :: "halfspace list" where
  "hs_sliver = [([- 1, 0], 2 - 2 / 10 ^ 9), ([1, 0], - 2), ([0, - 1], 0), ([0, 1], - 2)]"

definition centre_sliver :: "real list" where
  "centre_sliver = [2 - 1 / 10 ^ 9, 1]"

definition res_sliver :: lp_result where
  "res_sliver = \<lparr>success = True, lp_fun = - (1 / 10 ^ 9), lp_x = centre_sliver @ [1 / 10 ^ 9]\<rparr>"

definition lib_sliver :: library where
  "lib_sliver = \<lparr>
     ConvexHull = (\<lambda>points.
       if same_elements points sq0 then Inr \<lparr>equations = hs0, volume = 4\<rparr>
       else if same_elements points rect1 then Inr \<lparr>equations = hs_rect1, volume = 4 + 4 / 10 ^ 9\<rparr>
       else if same_elements points sliver then Inr \<lparr>equations = hs_sliver, volume = 4 / 10 ^ 9\<rparr>
       else Inl QhullError),
     linprog = (\<lambda>c A b.
       if c = [0, 0, - 1]
          \<and> same_elements (zip A b) (zip (A_ub (hs0 @ hs_rect1)) (b_ub (hs0 @ hs_rect1)))
       then Inr res_sliver
       else Inr \<lparr>success = False, lp_fun = 0, lp_x = []\<rparr>),
     HalfspaceIntersection = (\<lambda>halfspaces interior_point.
       if same_elements halfspaces (hs0 @ hs_rect1) \<and> interior_point = centre_sliver
       then Inr sliver
       else Inl QhullError)\<rparr>"

text \<open>
  A point \<open>v = (x, t)\<close> satisfies the constraints \<open>A v \<le> b\<close> of the LP.
\<close>

definition lp_feasible :: "real list list \<Rightarrow> real list \<Rightarrow> real list \<Rightarrow> bool" where
  "lp_feasible A b v = list_all2 (\<lambda>a bi. sum_list (map2 (*) a v) \<le> bi) A b"


text \<open>
  A heap holding \<open>Q\<close> at address 0 and \<open>y\<close> at address 1, and a library that overwrites every
  array it is handed with an empty one.
\<close>

definition heap_sq :: heap where
  "heap_sq = [Floats Q_sq, Ints y_sq]"

definition overwrite :: scribble where
  "overwrite ev k b = Floats \<lparr>shape = [0], data = []\<rparr>"

section \<open>Properties of the stages\<close>

subsection \<open>The labels and the loop over the classes\<close>

lemma length_np_unique: "length (np_unique y) = card (set (data y))"
  by (simp add: np_unique_def length_remdups_card_conv)

lemma set_np_unique: "set (np_unique y) = set (data y)"
  by (simp add: np_unique_def)

lemma hull_loop_Return:
  "hull_loop lib Q y n labels acc = (evs, Return r) \<Longrightarrow> r = 0"
proof (induction labels arbitrary: acc evs)
  case Nil
  then show ?case by simp
next
  case (Cons l labels)
  then show ?case
    by (auto simp: Let_def split: if_splits sum.splits prod.splits)
qed

lemma hull_loop_Next_length:
  "hull_loop lib Q y n labels acc = (evs, Next blocks) \<Longrightarrow> length blocks = length acc + length labels"
proof (induction labels arbitrary: acc evs)
  case Nil
  then show ?case by simp
next
  case (Cons l labels)
  then show ?case
    by (fastforce simp: Let_def split: if_splits sum.splits prod.splits)
qed

lemma hull_loop_events:
  "hull_loop lib Q y n labels acc = (evs, r) \<Longrightarrow> ev \<in> set evs \<Longrightarrow>
     \<exists>l \<in> set labels. ev = ConvexHull_call (mask_select Q y l) \<and> n + 1 \<le> length (mask_select Q y l)"
proof (induction labels arbitrary: acc evs)
  case Nil
  then show ?case by simp
next
  case (Cons l labels)
  then show ?case
    by (fastforce simp: Let_def split: if_splits sum.splits prod.splits)
qed

lemma hull_loop_deficient:
  "l \<in> set labels \<Longrightarrow> length (mask_select Q y l) < n + 1 \<Longrightarrow>
     snd (hull_loop lib Q y n labels acc) = Return 0"
proof (induction labels arbitrary: acc)
  case Nil
  then show ?case by simp
next
  case (Cons l' labels)
  show ?case
  proof (cases "length (mask_select Q y l') < n + 1")
    case True
    then show ?thesis by simp
  next
    case False
    with Cons.prems have "l \<in> set labels" by auto
    from Cons.IH[OF this Cons.prems(2)] False show ?thesis
      by (auto simp: Let_def split: sum.splits prod.splits) (metis snd_conv)
  qed
qed






lemma run_shape:
  "convex_hull_inter_run lib Q y fh fk = ([], Inr 0)
   \<or> (\<exists>evs. hull_loop lib Q y (shape Q ! 1) (np_unique y) [] = (evs, Return 0)
        \<and> convex_hull_inter_run lib Q y fh fk = (evs, Inr 0))
   \<or> (\<exists>evs blocks. hull_loop lib Q y (shape Q ! 1) (np_unique y) [] = (evs, Next blocks)
        \<and> blocks \<noteq> []
        \<and> convex_hull_inter_run lib Q y fh fk =
            (evs @ fst (feasibility_stage lib (shape Q ! 1) fk (concat blocks)),
             snd (feasibility_stage lib (shape Q ! 1) fk (concat blocks))))"
proof (cases "ndim Q \<noteq> 2 \<or> ndim y \<noteq> 1 \<or> shape Q ! 0 \<noteq> shape y ! 0 \<or> shape Q ! 0 = 0
    \<or> length (np_unique y) < 2")
  case True
  then show ?thesis by (auto simp: convex_hull_inter_run_def Let_def)
next
  case False
  obtain evs r where loop: "hull_loop lib Q y (shape Q ! 1) (np_unique y) [] = (evs, r)"
    by (cases "hull_loop lib Q y (shape Q ! 1) (np_unique y) []") auto
  show ?thesis
  proof (cases r)
    case (Return v)
    with loop have "v = 0" using hull_loop_Return by blast
    with False loop Return show ?thesis
      by (simp add: convex_hull_inter_run_def Let_def)
  next
    case (Next blocks)
    with loop have "length blocks = length (np_unique y)"
      using hull_loop_Next_length by fastforce
    with False have ne: "blocks \<noteq> []" by auto
    with False loop Next show ?thesis
      by (simp add: convex_hull_inter_run_def Let_def np_vstack_def split: prod.splits)
  qed
qed

lemma run_hulls_built:
  assumes "hulls_built lib Q y evs blocks"
  shows "convex_hull_inter_run lib Q y fh fk =
           (evs @ fst (feasibility_stage lib (shape Q ! 1) fk (concat blocks)),
            snd (feasibility_stage lib (shape Q ! 1) fk (concat blocks)))"
proof -
  from assms have loop: "hull_loop lib Q y (shape Q ! 1) (np_unique y) [] = (evs, Next blocks)"
    and two: "2 \<le> length (np_unique y)"
    and ok: "ndim Q = 2" "ndim y = 1" "shape Q ! 0 = shape y ! 0" "shape Q ! 0 \<noteq> 0"
    by (simp_all add: hulls_built_def)
  from loop have "length blocks = length (np_unique y)"
    using hull_loop_Next_length by fastforce
  with two have "blocks \<noteq> []" by auto
  with loop two ok show ?thesis
    by (simp add: convex_hull_inter_run_def Let_def np_vstack_def split: prod.splits)
qed

lemma feasibility_stage_stop:
  assumes "linprog lib (c_lp n) (A_ub hs) (b_ub hs) = Inr res"
    and "\<not> success res \<or> lp_fun res > - (1 / 10 ^ 9)"
  shows "feasibility_stage lib n fk hs = ([linprog_call (c_lp n) (A_ub hs) (b_ub hs)], Inr 0)"
  using assms by (auto simp: feasibility_stage_def)

lemma feasibility_stage_go:
  assumes "linprog lib (c_lp n) (A_ub hs) (b_ub hs) = Inr res"
    and "success res" and "lp_fun res \<le> - (1 / 10 ^ 9)"
  shows "feasibility_stage lib n fk hs =
           (linprog_call (c_lp n) (A_ub hs) (b_ub hs)
              # fst (vertex_stage lib n fk hs (butlast (lp_x res))),
            snd (vertex_stage lib n fk hs (butlast (lp_x res))))"
  using assms by (auto simp: feasibility_stage_def split: prod.splits)

lemma vertex_stage_go:
  assumes "HalfspaceIntersection lib hs p = Inr vs"
  shows "vertex_stage lib n fk hs p =
           (HalfspaceIntersection_call hs p # fst (volume_stage lib n fk vs),
            snd (volume_stage lib n fk vs))"
  using assms by (auto simp: vertex_stage_def split: prod.splits)

lemma feasibility_stage_value:
  assumes "snd (feasibility_stage lib n fk hs) = Inr r"
  shows "r = 0 \<or> (\<exists>vs h. ConvexHull lib vs = Inr h \<and> r = volume h * (1 - fk))"
  using assms
  by (auto simp: feasibility_stage_def vertex_stage_def volume_stage_def Let_def
      split: sum.splits if_splits prod.splits)





lemma outcome_hulls_built:
  assumes "hulls_built lib Q y evs blocks"
  shows "convex_hull_inter lib Q y fh fk = snd (feasibility_stage lib (shape Q ! 1) fk (concat blocks))"
  by (simp add: convex_hull_inter_def run_hulls_built[OF assms] del: One_nat_def)


text \<open>
  The call of \<^verbatim>\<open>linprog\<close> is the one library call outside every \<^verbatim>\<open>try\<close>: what it raises leaves
  the function.
\<close>

lemma linprog_outside_try:
  assumes "hulls_built lib Q y evs all_halfspaces"
    and "linprog lib (c_lp (shape Q ! 1)) (A_ub (concat all_halfspaces)) (b_ub (concat all_halfspaces))
           = Inl e"
  shows "convex_hull_inter lib Q y factor_h factor_k = Inl e"
  using assms(2) by (simp add: outcome_hulls_built[OF assms(1)] feasibility_stage_def)


subsection \<open>Reordered rows\<close>












subsection \<open>A library whose answers do not depend on the order of rows\<close>













text \<open>
  The third part of the contract follows from what an LP solver promises of a successful
  result: a feasible point, here \<open>(x, t)\<close> with \<open>t > 0\<close>, over half-spaces of the dimension of \<open>x\<close>.
\<close>

lemma sum_list_map2_snoc:
  "length a = length x \<Longrightarrow>
     sum_list (map2 (*) (a @ [u]) (x @ [t])) = sum_list (map2 (*) a x) + u * (t :: real)"
  by simp

lemma lp_feasible_strictly_inside:
  assumes feas: "lp_feasible (A_ub hs) (b_ub hs) (x @ [t])"
    and len: "\<forall>h \<in> set hs. length (fst h) = length x"
    and pos: "0 < t"
  shows "strictly_inside hs x"
proof -
  have "sum_list (map2 (*) (fst h) x) + snd h < 0" if h: "h \<in> set hs" for h
  proof -
    from feas have "list_all (\<lambda>h. sum_list (map2 (*) (fst h @ [1]) (x @ [t])) \<le> - snd h) hs"
      by (simp add: lp_feasible_def A_ub_def b_ub_def list_all2_map1 list_all2_map2
          list_all2_same list_all_iff)
    with h have "sum_list (map2 (*) (fst h @ [1]) (x @ [t])) \<le> - snd h"
      by (simp add: list_all_iff)
    moreover from len h have "length (fst h) = length x" by blast
    ultimately have "sum_list (map2 (*) (fst h) x) + t \<le> - snd h"
      by (simp add: sum_list_map2_snoc)
    with pos show ?thesis by simp
  qed
  with len show ?thesis by (simp add: strictly_inside_def list_all_iff)
qed

subsection \<open>The heap\<close>

lemma library_call_prefix: "take (length h) (foldl (library_call w n) h evs) = h"
proof (induction evs arbitrary: h)
  case Nil
  then show ?case by simp
next
  case (Cons ev evs)
  let ?h1 = "library_call w n h ev"
  have le: "length h \<le> length ?h1" by (simp add: library_call_def)
  have "take (length h) (foldl (library_call w n) ?h1 evs)
      = take (length h) (take (length ?h1) (foldl (library_call w n) ?h1 evs))"
    using le by (simp add: min_def)
  also have "\<dots> = take (length h) ?h1" by (simp only: Cons.IH)
  also have "\<dots> = h" by (simp add: library_call_def)
  finally show ?case by simp
qed

lemma hull_loop_heap_sound:
  assumes "qa < length h0" and "ya < length h0" and "take (length h0) h = h0"
  shows "take (length h0) (fst (hull_loop_heap lib w qa ya n labels acc h)) = h0
       \<and> snd (hull_loop_heap lib w qa ya n labels acc h)
           = hull_loop lib (floats_at h0 qa) (ints_at h0 ya) n labels acc"
  using assms(3)
proof (induction labels arbitrary: acc h)
  case Nil
  then show ?case by simp
next
  case (Cons l labels)
  from Cons.prems have len: "length h0 \<le> length h"
    by (metis length_take min.cobounded1 min.commute)
  from Cons.prems assms(1,2) len have rd: "h ! qa = h0 ! qa" "h ! ya = h0 ! ya"
    by (metis nth_take)+
  then have Q: "floats_at h qa = floats_at h0 qa" and y: "ints_at h ya = ints_at h0 ya"
    by (simp_all add: floats_at_def ints_at_def)
  let ?ps = "mask_select (floats_at h0 qa) (ints_at h0 ya) l"
  let ?h1 = "h @ [array_2d n ?ps]"
  let ?h2 = "?h1[length h := w (ConvexHull_call ?ps) 0 (?h1 ! length h)]"
  have p1: "take (length h0) ?h1 = h0" using Cons.prems len by simp
  have p2: "take (length h0) ?h2 = h0" using Cons.prems len by simp
  show ?case
  proof (cases "length ?ps < n + 1")
    case True
    with p1 show ?thesis by (simp add: Q y Let_def)
  next
    case False
    show ?thesis
    proof (cases "ConvexHull lib ?ps")
      case (Inl e)
      with False p2 show ?thesis by (simp add: Q y Let_def)
    next
      case (Inr hl)
      obtain h3 evs r where rec:
        "hull_loop_heap lib w qa ya n labels (acc @ [equations hl]) ?h2 = (h3, evs, r)"
        by (cases "hull_loop_heap lib w qa ya n labels (acc @ [equations hl]) ?h2") auto
      with Cons.IH[OF p2, of "acc @ [equations hl]"]
      have "take (length h0) h3 = h0"
        and "hull_loop lib (floats_at h0 qa) (ints_at h0 ya) n labels (acc @ [equations hl]) = (evs, r)"
        by simp_all
      with rec False Inr show ?thesis
        by (simp add: Q y Let_def)
    qed
  qed
qed

section \<open>The examples, evaluated\<close>

subsection \<open>The two squares\<close>

lemma same_elements_iff: "same_elements xs ys \<longleftrightarrow> set xs = set ys"
  by (auto simp: same_elements_def list_all_iff)

lemma valid_sq:
  "ndim Q_sq = 2" "ndim y_sq = 1" "ndim y_one = 1" "shape Q_sq ! 0 = 8" "shape y_sq ! 0 = 8"
  "shape y_one ! 0 = 8" "shape Q_sq ! Suc 0 = 2" "shape Q_sq ! 1 = 2"
  by (simp_all add: ndim_def Q_sq_def y_sq_def y_one_def)

lemma rows_Q_sq: "rows Q_sq = [[0, 0], [1, 1], [2, 0], [3, 1], [2, 2], [3, 3], [0, 2], [1, 3]]"
  by (simp add: rows_def row_def Q_sq_def upt_conv_Cons)

lemma mask_select_sq: "mask_select Q_sq y_sq 0 = sq0" "mask_select Q_sq y_sq 1 = sq1"
  by (simp_all add: mask_select_def rows_Q_sq y_sq_def sq0_def sq1_def)

lemma np_unique_y_sq: "np_unique y_sq = [0, 1]"
  by (simp add: np_unique_def y_sq_def)

lemma c_lp_2: "c_lp 2 = [0, 0, - 1]"
  by (simp add: c_lp_def numeral_eq_Suc)

lemma length_squares: "length sq0 = 4" "length sq1 = 4" "length sq_inter = 4"
  by (simp_all add: sq0_def sq1_def sq_inter_def)

lemma ConvexHull_squares:
  "ConvexHull lib_squares sq0 = Inr \<lparr>equations = hs0, volume = 4\<rparr>"
  "ConvexHull lib_squares sq1 = Inr \<lparr>equations = hs1, volume = 4\<rparr>"
  "ConvexHull lib_squares sq_inter = Inr \<lparr>equations = hs_inter, volume = 1\<rparr>"
  by (simp_all add: lib_squares_def same_elements_def sq0_def sq1_def sq_inter_def)

lemma hull_loop_squares:
  "hull_loop lib_squares Q_sq y_sq 2 [0, 1] [] =
     ([ConvexHull_call sq0, ConvexHull_call sq1], Next [hs0, hs1])"
  by (simp add: mask_select_sq ConvexHull_squares length_squares)

lemma linprog_squares:
  "linprog lib_squares (c_lp 2) (A_ub (hs0 @ hs1)) (b_ub (hs0 @ hs1)) =
     Inr \<lparr>success = True, lp_fun = - (1 / 2), lp_x = [3 / 2, 3 / 2, 1 / 2]\<rparr>"
  by (simp add: lib_squares_def c_lp_2 same_elements_iff)

lemma HalfspaceIntersection_squares:
  "HalfspaceIntersection lib_squares (hs0 @ hs1) [3 / 2, 3 / 2] = Inr sq_inter"
  by (simp add: lib_squares_def same_elements_iff)

lemma run_squares:
  "convex_hull_inter_run lib_squares Q_sq y_sq factor_h factor_k =
     ([ConvexHull_call sq0, ConvexHull_call sq1,
       linprog_call (c_lp 2) (A_ub (hs0 @ hs1)) (b_ub (hs0 @ hs1)),
       HalfspaceIntersection_call (hs0 @ hs1) [3 / 2, 3 / 2],
       ConvexHull_call sq_inter], Inr (1 - factor_k))"
  by (simp add: convex_hull_inter_run_def Let_def valid_sq np_unique_y_sq hull_loop_squares
      np_vstack_def feasibility_stage_def linprog_squares vertex_stage_def
      HalfspaceIntersection_squares volume_stage_def length_squares ConvexHull_squares
      del: hull_loop.simps)

lemma hulls_built_squares:
  "hulls_built lib_squares Q_sq y_sq [ConvexHull_call sq0, ConvexHull_call sq1] [hs0, hs1]"
  by (simp add: hulls_built_def valid_sq np_unique_y_sq hull_loop_squares del: hull_loop.simps)

lemma volume_squares_nonneg: "\<forall>points h. ConvexHull lib_squares points = Inr h \<longrightarrow> 0 \<le> volume h"
  by (auto simp: lib_squares_def split: if_splits)


lemma lp_squares_optimum:
  "lp_feasible (A_ub (hs0 @ hs1)) (b_ub (hs0 @ hs1)) [3 / 2, 3 / 2, 1 / 2]"
  "lp_feasible (A_ub (hs0 @ hs1)) (b_ub (hs0 @ hs1)) [x1, x2, t] \<Longrightarrow> t \<le> 1 / 2"
  by (simp_all add: lp_feasible_def A_ub_def b_ub_def hs0_def hs1_def)

subsection \<open>The variants of the square library\<close>

lemma hulls_built_lp_fails:
  "hulls_built lib_lp_fails Q_sq y_sq [ConvexHull_call sq0, ConvexHull_call sq1] [hs0, hs1]"
  using ConvexHull_squares
  by (simp add: hulls_built_def valid_sq np_unique_y_sq mask_select_sq length_squares
      lib_lp_fails_def)

lemma mask_select_few: "mask_select Q_sq y_few 0 = [[0, 0], [2, 0]]"
  by (simp add: mask_select_def rows_Q_sq y_few_def)











subsection \<open>The thin overlap\<close>

lemma rows_Q_sliver:
  "rows Q_sliver = [[0, 0], [2 - 2 / 10 ^ 9, 0], [2, 0], [4, 0], [2, 2], [4, 2], [0, 2], [2 - 2 / 10 ^ 9, 2]]"
  by (simp add: rows_def row_def Q_sliver_def upt_conv_Cons)

lemma valid_sliver: "ndim Q_sliver = 2" "shape Q_sliver ! 0 = 8" "shape Q_sliver ! Suc 0 = 2"
  by (simp_all add: ndim_def Q_sliver_def)

lemma mask_select_sliver: "mask_select Q_sliver y_sq 0 = sq0" "mask_select Q_sliver y_sq 1 = rect1"
  by (simp_all add: mask_select_def rows_Q_sliver y_sq_def sq0_def rect1_def)

lemma ConvexHull_sliver:
  "ConvexHull lib_sliver sq0 = Inr \<lparr>equations = hs0, volume = 4\<rparr>"
  "ConvexHull lib_sliver rect1 = Inr \<lparr>equations = hs_rect1, volume = 4 + 4 / 10 ^ 9\<rparr>"
  "ConvexHull lib_sliver sliver = Inr \<lparr>equations = hs_sliver, volume = 4 / 10 ^ 9\<rparr>"
  by (simp_all add: lib_sliver_def same_elements_def sq0_def rect1_def sliver_def)

lemma linprog_sliver:
  "linprog lib_sliver (c_lp 2) (A_ub (hs0 @ hs_rect1)) (b_ub (hs0 @ hs_rect1)) = Inr res_sliver"
  by (simp add: lib_sliver_def c_lp_2 same_elements_iff)

lemma lp_sliver_optimum:
  "lp_feasible (A_ub (hs0 @ hs_rect1)) (b_ub (hs0 @ hs_rect1)) (lp_x res_sliver)"
  "lp_feasible (A_ub (hs0 @ hs_rect1)) (b_ub (hs0 @ hs_rect1)) [x1, x2, t] \<Longrightarrow> t \<le> 1 / 10 ^ 9"
  by (simp_all add: lp_feasible_def A_ub_def b_ub_def hs0_def hs_rect1_def res_sliver_def
      centre_sliver_def)

lemma run_sliver:
  "convex_hull_inter_run lib_sliver Q_sliver y_sq 0 0 =
     ([ConvexHull_call sq0, ConvexHull_call rect1,
       linprog_call (c_lp 2) (A_ub (hs0 @ hs_rect1)) (b_ub (hs0 @ hs_rect1)),
       HalfspaceIntersection_call (hs0 @ hs_rect1) centre_sliver,
       ConvexHull_call sliver], Inr (4 / 10 ^ 9))"
proof -
  have loop: "hull_loop lib_sliver Q_sliver y_sq 2 [0, 1] [] =
     ([ConvexHull_call sq0, ConvexHull_call rect1], Next [hs0, hs_rect1])"
    by (simp add: mask_select_sliver ConvexHull_sliver length_squares) (simp add: rect1_def)
  have hi: "HalfspaceIntersection lib_sliver (hs0 @ hs_rect1) centre_sliver = Inr sliver"
    by (simp add: lib_sliver_def same_elements_iff)
  have len: "length sliver = 4" by (simp add: sliver_def)
  have res: "success res_sliver" "lp_fun res_sliver = - (1 / 10 ^ 9)"
    "butlast (lp_x res_sliver) = centre_sliver"
    by (simp_all add: res_sliver_def)
  show ?thesis
    by (simp add: convex_hull_inter_run_def Let_def valid_sq valid_sliver np_unique_y_sq loop
      np_vstack_def feasibility_stage_def linprog_sliver res vertex_stage_def hi
      volume_stage_def len ConvexHull_sliver del: hull_loop.simps)
qed

subsection \<open>The swapped samples\<close>



section \<open>The claims\<close>

text \<open>
  The library is a parameter of every theorem below: a theorem holds for whatever the three
  scipy functions return or raise, unless it names what it asks of them. A counterexample
  fixes a library that answers as exact arithmetic does on the calls that are made.
\<close>

subsection \<open>C1: exceptions\<close>



subsection \<open>C2: the value on the success path\<close>

text \<open>
  C2. When every gate is passed (valid shapes, two labels or more, a hull for every class, an
  LP that succeeds with \<^verbatim>\<open>res.fun\<close> at most \<open>-10\<^sup>-\<^sup>9\<close>, a vertex enumeration that returns at least
  \<open>N + 1\<close> rows, a final hull), the result is the volume of the hull of the enumerated vertices
  times \<open>1 - factor_k\<close>. Hence the results for \<open>factor_k = 0.2\<close> and \<open>factor_k = 0.5\<close> are in
  the ratio \<open>0.8 / 0.5\<close> (over the reals: the rounding of the float product is not modelled).
\<close>

theorem success_path_value:
  assumes "hulls_built lib Q y evs all_halfspaces"
    and "linprog lib (c_lp (shape Q ! 1)) (A_ub (concat all_halfspaces)) (b_ub (concat all_halfspaces))
           = Inr res"
    and "success res" and "lp_fun res \<le> - (1 / 10 ^ 9)"
    and "HalfspaceIntersection lib (concat all_halfspaces) (butlast (lp_x res)) = Inr intersection_vertices"
    and "shape Q ! 1 + 1 \<le> length intersection_vertices"
    and "ConvexHull lib intersection_vertices = Inr final_hull"
  shows "convex_hull_inter lib Q y factor_h factor_k = Inr (volume final_hull * (1 - factor_k))
     \<and> (\<exists>r1 r2. convex_hull_inter lib Q y factor_h (1 / 5) = Inr r1
           \<and> convex_hull_inter lib Q y factor_h (1 / 2) = Inr r2
           \<and> r1 * (1 / 2) = r2 * (4 / 5)
           \<and> (volume final_hull \<noteq> 0 \<longrightarrow> r1 / r2 = (4 / 5) / (1 / 2)))"
proof -
  have val: "convex_hull_inter lib Q y factor_h fk = Inr (volume final_hull * (1 - fk))" for fk
    using assms(6,7)
    by (simp add: convex_hull_inter_def run_hulls_built[OF assms(1)]
        feasibility_stage_go[OF assms(2,3,4)] vertex_stage_go[OF assms(5)] volume_stage_def
        del: One_nat_def)
  have "convex_hull_inter lib Q y factor_h (1 / 5) = Inr (volume final_hull * (4 / 5))"
    and "convex_hull_inter lib Q y factor_h (1 / 2) = Inr (volume final_hull * (1 / 2))"
    by (simp_all add: val)
  moreover have "volume final_hull * (4 / 5) * (1 / 2) = volume final_hull * (1 / 2) * (4 / 5)"
    by simp
  moreover have "volume final_hull \<noteq> 0 \<longrightarrow>
      volume final_hull * (4 / 5) / (volume final_hull * (1 / 2)) = (4 / 5) / (1 / 2)"
    by simp
  ultimately show ?thesis
    using val[of factor_k] by blast
qed

text \<open>
  The theorem at the two squares: the intersection is the unit square, and the results for
  \<open>factor_k = 0.2\<close> and \<open>0.5\<close> are \<open>0.8\<close> and \<open>0.5\<close>.
\<close>

theorem success_path_value_witness:
  "hulls_built lib_squares Q_sq y_sq [ConvexHull_call sq0, ConvexHull_call sq1] [hs0, hs1]
   \<and> convex_hull_inter lib_squares Q_sq y_sq 0 (1 / 5) = Inr (4 / 5)
   \<and> convex_hull_inter lib_squares Q_sq y_sq 0 (1 / 2) = Inr (1 / 2)"
proof -
  let ?res = "\<lparr>success = True, lp_fun = - (1 / 2), lp_x = [3 / 2, 3 / 2, 1 / 2]\<rparr>"
  have lp: "linprog lib_squares (c_lp (shape Q_sq ! 1)) (A_ub (concat [hs0, hs1]))
      (b_ub (concat [hs0, hs1])) = Inr ?res"
    using linprog_squares by (simp add: valid_sq)
  have hi: "HalfspaceIntersection lib_squares (concat [hs0, hs1]) (butlast (lp_x ?res)) = Inr sq_inter"
    using HalfspaceIntersection_squares by simp
  have len: "shape Q_sq ! 1 + 1 \<le> length sq_inter"
    by (simp add: valid_sq length_squares)
  have v: "convex_hull_inter lib_squares Q_sq y_sq 0 k = Inr (1 * (1 - k))" for k
    using success_path_value[OF hulls_built_squares lp _ _ hi len ConvexHull_squares(3), of 0 k]
    by simp
  from v[of "1 / 5"] v[of "1 / 2"] hulls_built_squares show ?thesis by simp
qed

subsection \<open>C3: invalid input\<close>

text \<open>
  C3. If \<open>Q\<close> is not two-dimensional, or \<open>y\<close> is not one-dimensional, or their leading
  dimensions differ, or \<open>Q\<close> has no rows, or \<open>y\<close> holds fewer than two distinct labels, the
  function returns \<open>0.0\<close> at once: no library call is made.
\<close>

theorem invalid_input_returns_zero:
  assumes "ndim Q \<noteq> 2 \<or> ndim y \<noteq> 1 \<or> shape Q ! 0 \<noteq> shape y ! 0 \<or> shape Q ! 0 = 0
           \<or> card (set (data y)) < 2"
  shows "convex_hull_inter_run lib Q y factor_h factor_k = ([], Inr 0)
         \<and> convex_hull_inter lib Q y factor_h factor_k = Inr 0"
  using assms
  by (auto simp: convex_hull_inter_def convex_hull_inter_run_def Let_def length_np_unique)

text \<open>
  The theorem at eight samples with one label, at eight rows with seven labels, and at an
  input with no rows.
\<close>

theorem invalid_input_returns_zero_witness:
  "card (set (data y_one)) < 2
   \<and> convex_hull_inter_run lib_squares Q_sq y_one 0 0 = ([], Inr 0)
   \<and> shape Q_sq ! 0 \<noteq> shape y_short ! 0
   \<and> convex_hull_inter_run lib_squares Q_sq y_short 0 0 = ([], Inr 0)
   \<and> shape Q_empty ! 0 = 0
   \<and> convex_hull_inter_run lib_squares Q_empty y_empty 0 0 = ([], Inr 0)"
proof -
  have one: "card (set (data y_one)) < 2"
    by (simp add: y_one_def)
  have short: "shape Q_sq ! 0 \<noteq> shape y_short ! 0"
    by (simp add: valid_sq y_short_def)
  have empty: "shape Q_empty ! 0 = 0"
    by (simp add: Q_empty_def)
  from one have 1: "ndim Q_sq \<noteq> 2 \<or> ndim y_one \<noteq> 1 \<or> shape Q_sq ! 0 \<noteq> shape y_one ! 0
      \<or> shape Q_sq ! 0 = 0 \<or> card (set (data y_one)) < 2"
    by simp
  from short have 2: "ndim Q_sq \<noteq> 2 \<or> ndim y_short \<noteq> 1 \<or> shape Q_sq ! 0 \<noteq> shape y_short ! 0
      \<or> shape Q_sq ! 0 = 0 \<or> card (set (data y_short)) < 2"
    by simp
  from empty have 3: "ndim Q_empty \<noteq> 2 \<or> ndim y_empty \<noteq> 1 \<or> shape Q_empty ! 0 \<noteq> shape y_empty ! 0
      \<or> shape Q_empty ! 0 = 0 \<or> card (set (data y_empty)) < 2"
    by simp
  from invalid_input_returns_zero[OF 1, of lib_squares 0 0]
    invalid_input_returns_zero[OF 2, of lib_squares 0 0]
    invalid_input_returns_zero[OF 3, of lib_squares 0 0] one short empty
  show ?thesis by simp
qed

subsection \<open>C4: a class with too few points\<close>

text \<open>
  C4. If the rows of some label of \<open>y\<close> are fewer than \<open>N + 1\<close>, the result is \<open>0.0\<close>,
  \<^verbatim>\<open>ConvexHull\<close> is never called on the rows of that label, and the computation never gets
  as far as the LP: either an earlier class ended it with \<open>0.0\<close>, or the loop reaches the
  class and returns before the \<^verbatim>\<open>try\<close>.
\<close>

theorem deficient_class_returns_zero:
  assumes "label \<in> set (data y)"
    and "length (mask_select Q y label) < shape Q ! 1 + 1"
  shows "convex_hull_inter lib Q y factor_h factor_k = Inr 0
         \<and> ConvexHull_call (mask_select Q y label)
             \<notin> set (fst (convex_hull_inter_run lib Q y factor_h factor_k))
         \<and> linprog_call c A b \<notin> set (fst (convex_hull_inter_run lib Q y factor_h factor_k))"
proof -
  from assms have ret: "snd (hull_loop lib Q y (shape Q ! 1) (np_unique y) []) = Return 0"
    by (intro hull_loop_deficient) (simp_all add: set_np_unique)
  from run_shape[of lib Q y factor_h factor_k]
  consider "convex_hull_inter_run lib Q y factor_h factor_k = ([], Inr 0)"
    | evs where "hull_loop lib Q y (shape Q ! 1) (np_unique y) [] = (evs, Return 0)"
      "convex_hull_inter_run lib Q y factor_h factor_k = (evs, Inr 0)"
    using ret by fastforce
  then show ?thesis
  proof cases
    case 1
    then show ?thesis by (simp add: convex_hull_inter_def)
  next
    case 2
    have "ConvexHull_call (mask_select Q y label) \<notin> set evs"
    proof
      assume "ConvexHull_call (mask_select Q y label) \<in> set evs"
      from hull_loop_events[OF 2(1) this] assms(2) show False by auto
    qed
    moreover have "linprog_call c A b \<notin> set evs"
    proof
      assume "linprog_call c A b \<in> set evs"
      from hull_loop_events[OF 2(1) this] show False by auto
    qed
    ultimately show ?thesis using 2 by (simp add: convex_hull_inter_def)
  qed
qed

text \<open>
  The theorem at a class of exactly \<open>N = 2\<close> points in the plane.
\<close>

theorem deficient_class_returns_zero_witness:
  "0 \<in> set (data y_few) \<and> length (mask_select Q_sq y_few 0) < shape Q_sq ! 1 + 1
   \<and> convex_hull_inter lib_squares Q_sq y_few 0 0 = Inr 0
   \<and> ConvexHull_call (mask_select Q_sq y_few 0)
        \<notin> set (fst (convex_hull_inter_run lib_squares Q_sq y_few 0 0))
   \<and> convex_hull_inter_run lib_squares Q_sq y_few 0 0 = ([], Inr 0)"
proof -
  have a: "0 \<in> set (data y_few)" by (simp add: y_few_def)
  have b: "length (mask_select Q_sq y_few 0) < shape Q_sq ! 1 + 1"
    by (simp add: mask_select_few valid_sq)
  have run: "convex_hull_inter_run lib_squares Q_sq y_few 0 0 = ([], Inr 0)"
    using b
    by (simp add: convex_hull_inter_run_def Let_def valid_sq ndim_def y_few_def np_unique_def)
  from deficient_class_returns_zero[OF a b, of lib_squares 0 0] a b run show ?thesis
    by blast
qed

subsection \<open>C5: the feasibility gate\<close>

text \<open>
  C5 (as amended). Once the hulls are built and \<^verbatim>\<open>linprog\<close> has returned \<open>res\<close>, with
  \<open>t\<^sup>* = - res.fun\<close>: if \<open>res\<close> does not report success, or \<open>t\<^sup>* < 10\<^sup>-\<^sup>9\<close>, the function returns
  \<open>0.0\<close> and calls the library no more; if \<open>res\<close> reports success and \<open>t\<^sup>* \<ge> 10\<^sup>-\<^sup>9\<close>, the next
  thing it does is to call \<^verbatim>\<open>HalfspaceIntersection\<close> on the stacked facets and on \<open>res.x\<close> without
  its last entry. The gate is \<^verbatim>\<open>res.fun > -1e-9\<close>: a slack of exactly \<open>10\<^sup>-\<^sup>9\<close> passes.
\<close>

theorem feasibility_gate:
  assumes "hulls_built lib Q y evs all_halfspaces"
    and "linprog lib (c_lp (shape Q ! 1)) (A_ub (concat all_halfspaces)) (b_ub (concat all_halfspaces))
           = Inr res"
  shows "(\<not> success res \<or> - lp_fun res < 1 / 10 ^ 9 \<longrightarrow>
            convex_hull_inter_run lib Q y factor_h factor_k =
              (evs @ [linprog_call (c_lp (shape Q ! 1)) (A_ub (concat all_halfspaces))
                        (b_ub (concat all_halfspaces))], Inr 0))
       \<and> (success res \<and> 1 / 10 ^ 9 \<le> - lp_fun res \<longrightarrow>
            (\<exists>rest r. convex_hull_inter_run lib Q y factor_h factor_k =
              (evs @ [linprog_call (c_lp (shape Q ! 1)) (A_ub (concat all_halfspaces))
                        (b_ub (concat all_halfspaces)),
                      HalfspaceIntersection_call (concat all_halfspaces) (butlast (lp_x res))] @ rest,
               r)))"
proof (intro conjI impI)
  assume "\<not> success res \<or> - lp_fun res < 1 / 10 ^ 9"
  then have "\<not> success res \<or> lp_fun res > - (1 / 10 ^ 9)" by auto
  from feasibility_stage_stop[OF assms(2) this]
  show "convex_hull_inter_run lib Q y factor_h factor_k =
      (evs @ [linprog_call (c_lp (shape Q ! 1)) (A_ub (concat all_halfspaces))
                (b_ub (concat all_halfspaces))], Inr 0)"
    by (simp add: run_hulls_built[OF assms(1)] del: One_nat_def)
next
  assume "success res \<and> 1 / 10 ^ 9 \<le> - lp_fun res"
  then have go: "success res" "lp_fun res \<le> - (1 / 10 ^ 9)" by auto
  show "\<exists>rest r. convex_hull_inter_run lib Q y factor_h factor_k =
      (evs @ [linprog_call (c_lp (shape Q ! 1)) (A_ub (concat all_halfspaces))
                (b_ub (concat all_halfspaces)),
              HalfspaceIntersection_call (concat all_halfspaces) (butlast (lp_x res))] @ rest, r)"
    by (auto simp: run_hulls_built[OF assms(1)] feasibility_stage_go[OF assms(2) go]
        vertex_stage_def simp del: One_nat_def split: sum.splits prod.splits)
qed

text \<open>
  The theorem at the two squares, where \<open>t\<^sup>* = 1/2\<close> and the vertices are enumerated, and
  with a solver that reports failure, where the LP call is the last.
\<close>

theorem feasibility_gate_witness:
  "hulls_built lib_squares Q_sq y_sq [ConvexHull_call sq0, ConvexHull_call sq1] [hs0, hs1]
   \<and> (\<exists>rest r. convex_hull_inter_run lib_squares Q_sq y_sq 0 0 =
        ([ConvexHull_call sq0, ConvexHull_call sq1] @
         [linprog_call (c_lp (shape Q_sq ! 1)) (A_ub (concat [hs0, hs1])) (b_ub (concat [hs0, hs1])),
          HalfspaceIntersection_call (concat [hs0, hs1]) [3 / 2, 3 / 2]] @ rest, r))
   \<and> hulls_built lib_lp_fails Q_sq y_sq [ConvexHull_call sq0, ConvexHull_call sq1] [hs0, hs1]
   \<and> convex_hull_inter_run lib_lp_fails Q_sq y_sq 0 0 =
        ([ConvexHull_call sq0, ConvexHull_call sq1] @
         [linprog_call (c_lp (shape Q_sq ! 1)) (A_ub (concat [hs0, hs1])) (b_ub (concat [hs0, hs1]))],
         Inr 0)"
proof -
  let ?res = "\<lparr>success = True, lp_fun = - (1 / 2), lp_x = [3 / 2, 3 / 2, 1 / 2]\<rparr>"
  let ?bad = "\<lparr>success = False, lp_fun = 0, lp_x = []\<rparr>"
  have lp: "linprog lib_squares (c_lp (shape Q_sq ! 1)) (A_ub (concat [hs0, hs1]))
      (b_ub (concat [hs0, hs1])) = Inr ?res"
    using linprog_squares by (simp add: valid_sq)
  have go: "success ?res \<and> 1 / 10 ^ 9 \<le> - lp_fun ?res" by simp
  have lp': "linprog lib_lp_fails (c_lp (shape Q_sq ! 1)) (A_ub (concat [hs0, hs1]))
      (b_ub (concat [hs0, hs1])) = Inr ?bad"
    by (simp add: lib_lp_fails_def)
  have stop: "\<not> success ?bad \<or> - lp_fun ?bad < 1 / 10 ^ 9" by simp
  from feasibility_gate[OF hulls_built_squares lp, of 0 0] go
  have a: "\<exists>rest r. convex_hull_inter_run lib_squares Q_sq y_sq 0 0 =
        ([ConvexHull_call sq0, ConvexHull_call sq1] @
         [linprog_call (c_lp (shape Q_sq ! 1)) (A_ub (concat [hs0, hs1])) (b_ub (concat [hs0, hs1])),
          HalfspaceIntersection_call (concat [hs0, hs1]) [3 / 2, 3 / 2]] @ rest, r)"
    by simp
  from feasibility_gate[OF hulls_built_lp_fails lp', of 0 0] stop
  have b: "convex_hull_inter_run lib_lp_fails Q_sq y_sq 0 0 =
        ([ConvexHull_call sq0, ConvexHull_call sq1] @
         [linprog_call (c_lp (shape Q_sq ! 1)) (A_ub (concat [hs0, hs1])) (b_ub (concat [hs0, hs1]))],
         Inr 0)"
    by blast
  from a b hulls_built_squares hulls_built_lp_fails show ?thesis by blast
qed

text \<open>
  C5 as stated lets the pipeline continue only for \<open>t\<^sup>*\<close> strictly above the tolerance. At the
  thin overlap the LP succeeds with \<open>t\<^sup>* = 10\<^sup>-\<^sup>9\<close>, which is not strictly above \<open>10\<^sup>-\<^sup>9\<close>; the
  pipeline continues all the same, enumerates the vertices, and returns the area
  \<open>4\<cdot>10\<^sup>-\<^sup>9\<close> of the strip, not \<open>0.0\<close>.
\<close>

theorem continues_at_the_tolerance:
  "linprog lib_sliver (c_lp 2) (A_ub (hs0 @ hs_rect1)) (b_ub (hs0 @ hs_rect1)) = Inr res_sliver
   \<and> success res_sliver
   \<and> \<not> (1 / 10 ^ 9 < - lp_fun res_sliver)
   \<and> convex_hull_inter_run lib_sliver Q_sliver y_sq 0 0 =
     ([ConvexHull_call sq0, ConvexHull_call rect1,
       linprog_call (c_lp 2) (A_ub (hs0 @ hs_rect1)) (b_ub (hs0 @ hs_rect1)),
       HalfspaceIntersection_call (hs0 @ hs_rect1) centre_sliver,
       ConvexHull_call sliver], Inr (4 / 10 ^ 9))
   \<and> convex_hull_inter lib_sliver Q_sliver y_sq 0 0 \<noteq> Inr 0"
  by (simp add: linprog_sliver run_sliver convex_hull_inter_def) (simp add: res_sliver_def)

subsection \<open>C6: too few vertices\<close>



subsection \<open>C7: the sign of the result\<close>

text \<open>
  C7 (as amended). If \<open>factor_k \<le> 1\<close> and the hull engine never reports a negative volume,
  every value the function returns is at least \<open>0\<close>. The returned value is the volume times
  \<open>1 - factor_k\<close>, so the bound on \<open>factor_k\<close> is needed.
\<close>

theorem result_nonnegative:
  assumes "factor_k \<le> 1"
    and "\<forall>points h. ConvexHull lib points = Inr h \<longrightarrow> 0 \<le> volume h"
    and "convex_hull_inter lib Q y factor_h factor_k = Inr r"
  shows "0 \<le> r"
proof -
  from run_shape[of lib Q y factor_h factor_k] assms(3)
  consider "r = 0"
    | blocks where "snd (feasibility_stage lib (shape Q ! 1) factor_k (concat blocks)) = Inr r"
    by (auto simp: convex_hull_inter_def)
  then show ?thesis
  proof cases
    case 1
    then show ?thesis by simp
  next
    case 2
    from feasibility_stage_value[OF this] assms(1,2) show ?thesis
      by (auto intro: mult_nonneg_nonneg)
  qed
qed

text \<open>
  The theorem at the two squares with \<open>factor_k = 1/2\<close>.
\<close>

theorem result_nonnegative_witness:
  "(1 / 2 :: real) \<le> 1 \<and> convex_hull_inter lib_squares Q_sq y_sq 0 (1 / 2) = Inr (1 / 2)
   \<and> (0 :: real) \<le> 1 / 2"
proof -
  have r: "convex_hull_inter lib_squares Q_sq y_sq 0 (1 / 2) = Inr (1 / 2)"
    by (simp add: convex_hull_inter_def run_squares)
  have k: "(1 / 2 :: real) \<le> 1" by simp
  from result_nonnegative[OF k volume_squares_nonneg r] r show ?thesis by simp
qed

text \<open>
  C7 as stated fails for \<open>factor_k > 1\<close>: at the two squares with \<open>factor_k = 2\<close> the unit
  square's volume \<open>1\<close> is returned as \<open>-1\<close>.
\<close>

theorem negative_result_for_large_factor_k:
  "convex_hull_inter lib_squares Q_sq y_sq 0 2 = Inr (- 1) \<and> (- 1 :: real) < 0"
  by (simp add: convex_hull_inter_def run_squares)

subsection \<open>C8: factor_h\<close>

text \<open>
  C8. \<open>factor_h\<close> is accepted and never read: two calls that differ only in \<open>factor_h\<close> make
  the same library calls and return the same result.
\<close>

theorem factor_h_unused:
  "convex_hull_inter_run lib Q y factor_h factor_k = convex_hull_inter_run lib Q y factor_h' factor_k
   \<and> convex_hull_inter lib Q y factor_h factor_k = convex_hull_inter lib Q y factor_h' factor_k"
  by (simp add: convex_hull_inter_def convex_hull_inter_run_def)

text \<open>
  The theorem at the two squares, for \<open>factor_h = 3\<close> and \<open>factor_h = 7\<close>.
\<close>

theorem factor_h_unused_witness:
  "convex_hull_inter lib_squares Q_sq y_sq 3 (1 / 2) = convex_hull_inter lib_squares Q_sq y_sq 7 (1 / 2)
   \<and> convex_hull_inter lib_squares Q_sq y_sq 7 (1 / 2) = Inr (1 / 2)"
  using factor_h_unused[of lib_squares Q_sq y_sq 3 "1 / 2" 7]
  by (simp add: convex_hull_inter_def run_squares)

subsection \<open>C9: reordering the samples\<close>



subsection \<open>C10: the inputs are not written to\<close>

text \<open>
  C10. Over the heap of array objects: after a call, every array object that existed before
  the call holds what it held before, \<open>Q\<close> and \<open>y\<close> among them, even when the library
  overwrites every array it is handed; the function only adds objects of its own. The calls
  made and the result are those of the pure function at the contents of \<open>Q\<close> and \<open>y\<close>: they
  depend on nothing else in the heap, and not on what the library writes.
\<close>

theorem inputs_unchanged:
  assumes "qa < length h" and "ya < length h"
  shows "take (length h) (fst (convex_hull_inter_heap lib w qa ya factor_h factor_k h)) = h
       \<and> fst (convex_hull_inter_heap lib w qa ya factor_h factor_k h) ! qa = h ! qa
       \<and> fst (convex_hull_inter_heap lib w qa ya factor_h factor_k h) ! ya = h ! ya
       \<and> snd (convex_hull_inter_heap lib w qa ya factor_h factor_k h)
           = convex_hull_inter_run lib (floats_at h qa) (ints_at h ya) factor_h factor_k"
proof -
  let ?Q = "floats_at h qa" and ?y = "ints_at h ya"
  let ?run = "convex_hull_inter_heap lib w qa ya factor_h factor_k h"
  have main: "take (length h) (fst ?run) = h
      \<and> snd ?run = convex_hull_inter_run lib ?Q ?y factor_h factor_k"
  proof (cases "ndim ?Q \<noteq> 2 \<or> ndim ?y \<noteq> 1 \<or> shape ?Q ! 0 \<noteq> shape ?y ! 0 \<or> shape ?Q ! 0 = 0
      \<or> length (np_unique ?y) < 2")
    case True
    then show ?thesis
      by (auto simp: convex_hull_inter_heap_def convex_hull_inter_run_def Let_def)
  next
    case False
    obtain h1 evs r where hl: "hull_loop_heap lib w qa ya (shape ?Q ! 1) (np_unique ?y) [] h = (h1, evs, r)"
      by (cases "hull_loop_heap lib w qa ya (shape ?Q ! 1) (np_unique ?y) [] h") auto
    from hull_loop_heap_sound[OF assms, of h lib w "shape ?Q ! 1" "np_unique ?y" "[]"] hl
    have pre: "take (length h) h1 = h"
      and pl: "hull_loop lib ?Q ?y (shape ?Q ! 1) (np_unique ?y) [] = (evs, r)"
      by simp_all
    from pre have len: "length h \<le> length h1"
      by (metis length_take min.cobounded1 min.commute)
    have fold: "take (length h) (foldl (library_call w n) h1 es) = h" for n es
    proof -
      have "take (length h) (foldl (library_call w n) h1 es)
          = take (length h) (take (length h1) (foldl (library_call w n) h1 es))"
        using len by (simp add: min_def)
      then show ?thesis by (simp only: library_call_prefix pre)
    qed
    show ?thesis
    proof (cases r)
      case (Return v)
      with False hl pl pre show ?thesis
        by (simp add: convex_hull_inter_heap_def convex_hull_inter_run_def Let_def
            del: hull_loop.simps hull_loop_heap.simps)
    next
      case (Next bs)
      with False hl pl pre fold show ?thesis
        by (simp add: convex_hull_inter_heap_def convex_hull_inter_run_def Let_def
            split: sum.splits prod.splits del: hull_loop.simps hull_loop_heap.simps)
    qed
  qed
  then have "take (length h) (fst ?run) = h" by simp
  with assms have "fst ?run ! qa = h ! qa" "fst ?run ! ya = h ! ya"
    by (metis nth_take)+
  with main show ?thesis by simp
qed

text \<open>
  The theorem at the two squares, with a library that empties every array it is handed.
\<close>

theorem inputs_unchanged_witness:
  "fst (convex_hull_inter_heap lib_squares overwrite 0 1 0 0 heap_sq) ! 0 = Floats Q_sq
   \<and> fst (convex_hull_inter_heap lib_squares overwrite 0 1 0 0 heap_sq) ! 1 = Ints y_sq
   \<and> snd (snd (convex_hull_inter_heap lib_squares overwrite 0 1 0 0 heap_sq)) = Inr 1"
proof -
  have a: "0 < length heap_sq" "Suc 0 < length heap_sq" by (simp_all add: heap_sq_def)
  have nth: "heap_sq ! 0 = Floats Q_sq" "heap_sq ! Suc 0 = Ints y_sq"
    by (simp_all add: heap_sq_def)
  have rd: "floats_at heap_sq 0 = Q_sq" "ints_at heap_sq (Suc 0) = y_sq"
    by (simp_all add: floats_at_def ints_at_def nth)
  from inputs_unchanged[OF a, of lib_squares overwrite 0 0] show ?thesis
    by (simp add: rd nth run_squares)
qed

end
